theory Spec2Isabelle
  imports Main
begin

section \<open>JavaScript values\<close>

text \<open>
  The front end (\<^verbatim>\<open>static/main.js\<close>, \<^verbatim>\<open>static/chat.js\<close>) handles values parsed
  from JSON. A string is a \<^typ>\<open>string\<close>, one \<^typ>\<open>char\<close> per code unit (code units
  below 256). A number is an \<^typ>\<open>int\<close>: the integers are the numbers whose
  \<^verbatim>\<open>String(n)\<close> is their decimal numeral (magnitude below \<open>10^21\<close>). An
  object is the list of its own properties in enumeration order, each key once.
\<close>

datatype jsval =
    JUndefined
  | JNull
  | JBool bool
  | JNum int
  | JStr string
  | JArr "jsval list"
  | JObj "(string \<times> jsval) list"

text \<open>\<^verbatim>\<open>ToBoolean\<close>: what \<^verbatim>\<open>if (v)\<close>, \<^verbatim>\<open>v || w\<close> and \<^verbatim>\<open>v ? a : b\<close> test.\<close>

fun truthy :: "jsval \<Rightarrow> bool" where
  "truthy JUndefined = False"
| "truthy JNull = False"
| "truthy (JBool b) = b"
| "truthy (JNum n) = (n \<noteq> 0)"
| "truthy (JStr s) = (s \<noteq> [])"
| "truthy (JArr xs) = True"
| "truthy (JObj kvs) = True"

text \<open>\<^verbatim>\<open>a || b\<close>\<close>

definition js_or :: "jsval \<Rightarrow> jsval \<Rightarrow> jsval" where
  "js_or a b = (if truthy a then a else b)"

text \<open>
  \<^verbatim>\<open>v.k\<close> for a value that is neither null nor undefined: an own property of an
  object, \<^verbatim>\<open>undefined\<close> otherwise (the keys read by the code are not properties of
  the built-in prototypes).
\<close>

fun get_prop :: "jsval \<Rightarrow> string \<Rightarrow> jsval" where
  "get_prop (JObj kvs) k = (case map_of kvs k of Some v \<Rightarrow> v | None \<Rightarrow> JUndefined)"
| "get_prop v k = JUndefined"

text \<open>\<^verbatim>\<open>xs.join(sep)\<close> on strings already rendered.\<close>

fun join :: "string \<Rightarrow> string list \<Rightarrow> string" where
  "join sep [] = []"
| "join sep [x] = x"
| "join sep (x # y # ys) = x @ sep @ join sep (y # ys)"

text \<open>Decimal numerals of the integers.\<close>

definition digit :: "nat \<Rightarrow> char" where
  "digit d = ''0123456789'' ! (d mod 10)"

fun nat_str :: "nat \<Rightarrow> string" where
  "nat_str n = (if n < 10 then [digit n] else nat_str (n div 10) @ [digit n])"

declare nat_str.simps [simp del]

definition int_str :: "int \<Rightarrow> string" where
  "int_str i = (if i < 0 then CHR ''-'' # nat_str (nat (- i)) else nat_str (nat i))"

text \<open>
  \<^verbatim>\<open>ToString\<close>, as \<^verbatim>\<open>String(v)\<close>, a template literal and \<^verbatim>\<open>join\<close> apply it.
  An array renders as its elements joined by a comma, null and undefined elements as
  the empty string; an object renders as the default \<^verbatim>\<open>[object Object]\<close>.
\<close>

fun js_to_string :: "jsval \<Rightarrow> string" where
  "js_to_string JUndefined = ''undefined''"
| "js_to_string JNull = ''null''"
| "js_to_string (JBool b) = (if b then ''true'' else ''false'')"
| "js_to_string (JNum n) = int_str n"
| "js_to_string (JStr s) = s"
| "js_to_string (JArr xs) =
     join '','' (map (\<lambda>x. case x of JUndefined \<Rightarrow> [] | JNull \<Rightarrow> [] | _ \<Rightarrow> js_to_string x) xs)"
| "js_to_string (JObj kvs) = ''[object Object]''"

text \<open>The element rendering of \<^verbatim>\<open>Array.prototype.join\<close>.\<close>

definition join_item :: "jsval \<Rightarrow> string" where
  "join_item x = (case x of JUndefined \<Rightarrow> [] | JNull \<Rightarrow> [] | _ \<Rightarrow> js_to_string x)"

text \<open>\<^verbatim>\<open>vs.join(sep)\<close> on an array of values.\<close>

definition js_join :: "string \<Rightarrow> jsval list \<Rightarrow> string" where
  "js_join sep vs = join sep (map join_item vs)"

text \<open>\<^verbatim>\<open>Object.values(v)\<close> and \<^verbatim>\<open>Object.entries(v)\<close>: own enumerable properties; an
  array's are its elements under their indices.\<close>

fun object_values :: "jsval \<Rightarrow> jsval list" where
  "object_values (JObj kvs) = map snd kvs"
| "object_values (JArr xs) = xs"
| "object_values (JStr s) = map (\<lambda>c. JStr [c]) s"
| "object_values v = []"

fun object_entries :: "jsval \<Rightarrow> (string \<times> jsval) list" where
  "object_entries (JObj kvs) = kvs"
| "object_entries (JArr xs) = zip (map (\<lambda>i. nat_str i) [0..<length xs]) xs"
| "object_entries (JStr s) = zip (map (\<lambda>i. nat_str i) [0..<length s]) (map (\<lambda>c. JStr [c]) s)"
| "object_entries v = []"

section \<open>File upload handlers (\<^verbatim>\<open>static/main.js\<close>)\<close>

text \<open>A \<^verbatim>\<open>File\<close> of a drop or of the file input: its name and its MIME type.\<close>

record js_file =
  name :: string
  file_type :: string

text \<open>What a handler does to the outside: the call of \<^verbatim>\<open>uploadFile\<close>, the only
  sender of a request to \<^verbatim>\<open>/api/upload\<close>, or the alert.\<close>

datatype upload_effect = UploadFile js_file | Alert string

text \<open>\<^verbatim>\<open>files[0]\<close>: undefined on an empty list.\<close>

definition first_file :: "js_file list \<Rightarrow> js_file option" where
  "first_file fs = (case fs of [] \<Rightarrow> None | f # _ \<Rightarrow> Some f)"

definition pdf_type :: string where
  "pdf_type = ''application/pdf''"

definition docx_type :: string where
  "docx_type = ''application/vnd.openxmlformats-officedocument.wordprocessingml.document''"

definition handleDrop :: "js_file list \<Rightarrow> upload_effect list" where
  "handleDrop fs =
     (case first_file fs of
        Some f \<Rightarrow>
          (if file_type f = pdf_type \<or> file_type f = docx_type
           then [UploadFile f]
           else [Alert ''Please upload a PDF or DOCX file''])
      | None \<Rightarrow> [Alert ''Please upload a PDF or DOCX file''])"

definition handleFileSelect :: "js_file list \<Rightarrow> upload_effect list" where
  "handleFileSelect fs =
     (case first_file fs of
        Some f \<Rightarrow>
          (if file_type f = pdf_type \<or> file_type f = docx_type
           then [UploadFile f]
           else [Alert ''Please upload a PDF or DOCX file''])
      | None \<Rightarrow> [Alert ''Please upload a PDF or DOCX file''])"

definition isValidFileType :: "js_file \<Rightarrow> bool" where
  "isValidFileType f = (file_type f \<in> set [pdf_type, docx_type])"

text \<open>Whether an effect list holds a call of \<^verbatim>\<open>uploadFile\<close>.\<close>

fun is_upload :: "upload_effect \<Rightarrow> bool" where
  "is_upload (UploadFile f) = True"
| "is_upload (Alert m) = False"

definition uploads :: "upload_effect list \<Rightarrow> bool" where
  "uploads es = list_ex is_upload es"

text \<open>The hypothesis of the upload claim: no file, or a file of another type.\<close>

definition invalid_selection :: "js_file list \<Rightarrow> bool" where
  "invalid_selection fs =
     (case first_file fs of None \<Rightarrow> True | Some f \<Rightarrow> \<not> isValidFileType f)"

section \<open>Chat widget (\<^verbatim>\<open>static/chat.js\<close>)\<close>

text \<open>
  A source of an answer, as the back end sends it: the chunk's text, its source label
  and its relevance score. A missing or null text or label is \<open>None\<close>. The score is
  a double: the type \<open>'d\<close> stands for the doubles other than NaN, and a missing score
  (undefined, which is NaN as a number) is \<open>None\<close>; a null score counts as the
  double zero.
\<close>

record 'd source_entry =
  src_text :: "string option"
  src_source :: "string option"
  src_score :: "'d option"

text \<open>
  A string assigned to the \<^verbatim>\<open>innerHTML\<close> of an element. The browser parses it as
  markup: the element shows what the parser makes of the string, and a \<^verbatim>\<open><\<close> or
  \<^verbatim>\<open>&\<close> in it starts a tag or a character reference. (A string assigned to
  \<^verbatim>\<open>textContent\<close> is shown as it is.)
\<close>

datatype html = InnerHTML string

text \<open>\<^verbatim>\<open>s || d\<close> and \<^verbatim>\<open>if (s)\<close> on an optional string: absent and empty are falsy.\<close>

definition str_truthy :: "string option \<Rightarrow> bool" where
  "str_truthy s = (case s of None \<Rightarrow> False | Some t \<Rightarrow> t \<noteq> [])"

definition str_or :: "string option \<Rightarrow> string \<Rightarrow> string" where
  "str_or s d = (case s of None \<Rightarrow> d | Some t \<Rightarrow> if t = [] then d else t)"

text \<open>The string of a field known to be truthy.\<close>

definition str_val :: "string option \<Rightarrow> string" where
  "str_val s = (case s of None \<Rightarrow> [] | Some t \<Rightarrow> t)"

text \<open>\<^verbatim>\<open>s.substring(0, n)\<close>\<close>

definition substring0 :: "nat \<Rightarrow> string \<Rightarrow> string" where
  "substring0 n s = take n s"

datatype sender = User | System

record 'd chat_message =
  msg_text :: string
  msg_type :: sender
  msg_sources :: "'d source_entry list"

text \<open>\<^verbatim>\<open>chatState\<close>\<close>

record 'd chatState =
  isOpen :: bool
  messages :: "'d chat_message list"
  loading :: bool

text \<open>
  The children of \<^verbatim>\<open>#chat-messages\<close>: a message element (its type class, the
  \<^verbatim>\<open>textContent\<close> of its text, the \<^verbatim>\<open>display\<close> style of its sources container and
  the markup assigned to the \<^verbatim>\<open>innerHTML\<close> of each item of its sources list) or the
  loading indicator, the element whose id is \<^verbatim>\<open>current-loading\<close>.
\<close>

datatype chat_node =
    MessageElement sender string string "html list"
  | LoadingElement

text \<open>
  A call of \<^verbatim>\<open>sendChatMessage\<close> suspended at an \<^verbatim>\<open>await\<close>: on \<^verbatim>\<open>fetch\<close>, with the
  message it posted, or on \<^verbatim>\<open>response.json()\<close>.
\<close>

datatype pending = AwaitFetch string | AwaitJson

text \<open>
  The page: the value of \<^verbatim>\<open>#chat-input\<close>, \<^verbatim>\<open>chatState\<close>, the children of
  \<^verbatim>\<open>#chat-messages\<close>, the suspended calls (the requests in flight) and the bodies of all
  requests posted to \<^verbatim>\<open>/api/chat\<close> so far.
\<close>

record 'd page =
  chatInput :: string
  chat :: "'d chatState"
  chatMessages :: "chat_node list"
  inflight :: "pending list"
  posted :: "string list"

definition initial_page :: "'d page" where
  "initial_page =
     \<lparr>chatInput = [], chat = \<lparr>isOpen = False, messages = [], loading = False\<rparr>,
      chatMessages = [], inflight = [], posted = []\<rparr>"

text \<open>
  \<^verbatim>\<open>String.prototype.trim\<close>: strips white space and line terminators from both ends
  (the code units below 256 among them: TAB, LF, VT, FF, CR, space, NBSP).
\<close>

definition is_space :: "char \<Rightarrow> bool" where
  "is_space c = (of_char c \<in> set [9, 10, 11, 12, 13, 32, 160 :: nat])"

definition trim :: "string \<Rightarrow> string" where
  "trim s = rev (dropWhile is_space (rev (dropWhile is_space s)))"

text \<open>
  The markup assigned to the \<^verbatim>\<open>innerHTML\<close> of the list item of one source in a chat
  answer: the label and the text preview are interpolated as they are, unescaped.
\<close>

definition source_item :: "'d source_entry \<Rightarrow> html" where
  "source_item s =
     InnerHTML
       (''<strong>'' @ str_or (src_source s) ''Unknown'' @ '':</strong> '' @
        (if str_truthy (src_text s) then substring0 100 (str_val (src_text s)) @ ''...''
         else ''No text available''))"

definition addChatMessage :: "string \<Rightarrow> sender \<Rightarrow> 'd source_entry list \<Rightarrow> 'd page \<Rightarrow> 'd page" where
  "addChatMessage txt ty sources p =
     (let messageElement =
            (if length sources > 0
             then MessageElement ty txt ''block'' (map source_item sources)
             else MessageElement ty txt ''none'' [])
      in p\<lparr>chatMessages := chatMessages p @ [messageElement],
            chat := (chat p)\<lparr>messages := messages (chat p) @
                      [\<lparr>msg_text = txt, msg_type = ty, msg_sources = sources\<rparr>]\<rparr>\<rparr>)"

definition showChatLoading :: "'d page \<Rightarrow> 'd page" where
  "showChatLoading p = p\<lparr>chatMessages := chatMessages p @ [LoadingElement]\<rparr>"

text \<open>\<^verbatim>\<open>getElementById\<close> finds the first element with the id; it is removed.\<close>

fun remove_first_loading :: "chat_node list \<Rightarrow> chat_node list" where
  "remove_first_loading [] = []"
| "remove_first_loading (LoadingElement # ns) = ns"
| "remove_first_loading (n # ns) = n # remove_first_loading ns"

definition removeChatLoading :: "'d page \<Rightarrow> 'd page" where
  "removeChatLoading p = p\<lparr>chatMessages := remove_first_loading (chatMessages p)\<rparr>"

definition toggleChat :: "'d page \<Rightarrow> 'd page" where
  "toggleChat p = p\<lparr>chat := (chat p)\<lparr>isOpen := \<not> isOpen (chat p)\<rparr>\<rparr>"

definition set_loading :: "bool \<Rightarrow> 'd page \<Rightarrow> 'd page" where
  "set_loading b p = p\<lparr>chat := (chat p)\<lparr>loading := b\<rparr>\<rparr>"

text \<open>
  \<^verbatim>\<open>sendChatMessage\<close> up to its first \<^verbatim>\<open>await\<close>: the guard, the user's message, the
  cleared input, the loading indicator and flag, and the request.
\<close>

definition sendChatMessage :: "'d page \<Rightarrow> 'd page" where
  "sendChatMessage p =
     (let message = trim (chatInput p) in
      if message = [] \<or> loading (chat p) then p
      else
        (let p1 = addChatMessage message User [] p;
             p2 = p1\<lparr>chatInput := []\<rparr>;
             p3 = showChatLoading p2;
             p4 = set_loading True p3
         in p4\<lparr>inflight := inflight p4 @ [AwaitFetch message],
                posted := posted p4 @ [message]\<rparr>))"

definition error_message :: string where
  "error_message = ''Sorry, there was an error processing your request. Please try again.''"

definition no_response_message :: string where
  "no_response_message = ''Sorry, I was unable to generate a response. Please try again.''"

text \<open>The \<^verbatim>\<open>catch\<close> block.\<close>

definition catch_block :: "'d page \<Rightarrow> 'd page" where
  "catch_block p = addChatMessage error_message System [] (set_loading False (removeChatLoading p))"

text \<open>
  How the \<^verbatim>\<open>fetch\<close> promise settles: rejected (a network error, with the browser's
  error text), or a response with its \<^verbatim>\<open>ok\<close> flag and status.
\<close>

datatype fetch_outcome = Rejected string | Response bool nat

text \<open>
  How \<^verbatim>\<open>response.json()\<close> settles: rejected (the body is not JSON), the value
  \<^verbatim>\<open>null\<close> (reading a property of it throws), or a value with the properties
  \<^verbatim>\<open>response_text\<close> and \<^verbatim>\<open>sources\<close>, each possibly missing.
\<close>

record 'd chat_data =
  response_text :: "string option"
  sources :: "'d source_entry list option"

datatype 'd json_outcome = BadJson string | NullData | Data "'d chat_data"

text \<open>Removing the \<open>i\<close>-th suspended call, or replacing it.\<close>

definition drop_nth :: "nat \<Rightarrow> 'a list \<Rightarrow> 'a list" where
  "drop_nth i xs = take i xs @ drop (Suc i) xs"

text \<open>The call resumes after \<^verbatim>\<open>await fetch(...)\<close>.\<close>

definition after_fetch :: "nat \<Rightarrow> fetch_outcome \<Rightarrow> 'd page \<Rightarrow> 'd page" where
  "after_fetch i out p =
     (case out of
        Rejected e \<Rightarrow> catch_block (p\<lparr>inflight := drop_nth i (inflight p)\<rparr>)
      | Response ok status \<Rightarrow>
          if \<not> ok then catch_block (p\<lparr>inflight := drop_nth i (inflight p)\<rparr>)
          else p\<lparr>inflight := (inflight p)[i := AwaitJson]\<rparr>)"

text \<open>The call resumes after \<^verbatim>\<open>await response.json()\<close> and runs to its end.\<close>

definition after_json :: "nat \<Rightarrow> 'd json_outcome \<Rightarrow> 'd page \<Rightarrow> 'd page" where
  "after_json i out p =
     (let q = p\<lparr>inflight := drop_nth i (inflight p)\<rparr> in
      case out of
        BadJson e \<Rightarrow> catch_block q
      | NullData \<Rightarrow> catch_block (set_loading False (removeChatLoading q))
      | Data d \<Rightarrow>
          (let q1 = set_loading False (removeChatLoading q) in
           if str_truthy (response_text d)
           then addChatMessage (str_val (response_text d)) System
                  (case sources d of None \<Rightarrow> [] | Some ss \<Rightarrow> ss) q1
           else addChatMessage no_response_message System [] q1))"

text \<open>
  What can happen to the page: the user edits the input, toggles the widget or sends
  (button or Enter), and a suspended call resumes when its promise settles.
\<close>

datatype 'd event =
    Edit string
  | Toggle
  | Send
  | FetchSettled nat fetch_outcome
  | JsonSettled nat "'d json_outcome"

fun enabled :: "'d event \<Rightarrow> 'd page \<Rightarrow> bool" where
  "enabled (FetchSettled i out) p =
     (i < length (inflight p) \<and> (case inflight p ! i of AwaitFetch m \<Rightarrow> True | AwaitJson \<Rightarrow> False))"
| "enabled (JsonSettled i out) p =
     (i < length (inflight p) \<and> (case inflight p ! i of AwaitFetch m \<Rightarrow> False | AwaitJson \<Rightarrow> True))"
| "enabled e p = True"

fun step :: "'d event \<Rightarrow> 'd page \<Rightarrow> 'd page" where
  "step (Edit s) p = p\<lparr>chatInput := s\<rparr>"
| "step Toggle p = toggleChat p"
| "step Send p = sendChatMessage p"
| "step (FetchSettled i out) p = after_fetch i out p"
| "step (JsonSettled i out) p = after_json i out p"

text \<open>Running a list of events; an event that cannot happen is skipped.\<close>

fun run :: "'d event list \<Rightarrow> 'd page \<Rightarrow> 'd page" where
  "run [] p = p"
| "run (e # es) p = run es (if enabled e p then step e p else p)"

text \<open>The pages reachable from the initial one.\<close>

inductive reachable :: "'d page \<Rightarrow> bool" where
  init: "reachable initial_page"
| next_event: "reachable p \<Longrightarrow> enabled e p \<Longrightarrow> reachable (step e p)"

text \<open>The number of loading indicators in the chat.\<close>

definition loading_nodes :: "chat_node list \<Rightarrow> nat" where
  "loading_nodes ns = length (filter (\<lambda>n. n = LoadingElement) ns)"

section \<open>Response structure (\<^verbatim>\<open>renderResponseStructure\<close> in \<^verbatim>\<open>static/main.js\<close>)\<close>

text \<open>A question of \<^verbatim>\<open>state.questions\<close>; a missing or null field is \<open>None\<close>.\<close>

record question =
  q_id :: "string option"
  q_text :: "string option"
  original_text :: "string option"
  search_query :: "string option"
  q_section :: "string option"
  response_section :: "string option"
  q_type :: "string option"

text \<open>
  A section object, as one of the three object literals of the function creates it.
  The title of a section taken from the response guide is whatever value the guide
  holds. \<^verbatim>\<open>isEmpty\<close> is set on the sections created empty (false stands for
  undefined).
\<close>

record section_rec =
  title :: jsval
  questions :: "question list"
  requirementCount :: int
  strategicCount :: int
  isEmpty :: bool

text \<open>
  The \<^verbatim>\<open>sections\<close> object is a plain \<^verbatim>\<open>{}\<close>: its own properties, in the order
  they were added, and behind them the members it inherits from
  \<^verbatim>\<open>Object.prototype\<close>, all of them truthy and none of them a section.
\<close>

type_synonym sections = "(string \<times> section_rec) list"

definition object_prototype_names :: "string list" where
  "object_prototype_names =
     [''constructor'', ''__defineGetter__'', ''__defineSetter__'', ''hasOwnProperty'',
      ''__lookupGetter__'', ''__lookupSetter__'', ''isPrototypeOf'', ''propertyIsEnumerable'',
      ''toString'', ''valueOf'', ''__proto__'', ''toLocaleString'']"

text \<open>\<^verbatim>\<open>sections[k]\<close>: an own section, an inherited member, or undefined.\<close>

datatype section_lookup = Own section_rec | Inherited | Missing

definition sections_get :: "sections \<Rightarrow> string \<Rightarrow> section_lookup" where
  "sections_get secs k =
     (case map_of secs k of
        Some s \<Rightarrow> Own s
      | None \<Rightarrow> if k \<in> set object_prototype_names then Inherited else Missing)"

definition update_section :: "string \<Rightarrow> (section_rec \<Rightarrow> section_rec) \<Rightarrow> sections \<Rightarrow> sections" where
  "update_section k f secs = map (\<lambda>(k', s). if k' = k then (k', f s) else (k', s)) secs"

text \<open>\<^verbatim>\<open>delete sections[k]\<close>: removes an own property, and nothing else.\<close>

definition delete_section :: "string \<Rightarrow> sections \<Rightarrow> sections" where
  "delete_section k secs = filter (\<lambda>(k', s). k' \<noteq> k) secs"

text \<open>\<^verbatim>\<open>isStrategic\<close>, as the loop over the questions computes it.\<close>

definition isStrategic :: "question \<Rightarrow> bool" where
  "isStrategic q = (q_type q = Some ''Strategic'' \<or> original_text q = Some ''STRATEGIC ADDITION'')"

datatype js_error = TypeError

text \<open>
  The body of \<^verbatim>\<open>state.questions.forEach\<close>. When the name of the response section is an
  inherited member, \<^verbatim>\<open>!sections[name]\<close> is false and no section is created; the
  increment lands on the member, its \<^verbatim>\<open>questions\<close> is undefined and \<^verbatim>\<open>push\<close>
  throws.
\<close>

definition count_question :: "question \<Rightarrow> string \<Rightarrow> sections \<Rightarrow> sections" where
  "count_question q k secs =
     (let secs2 = (if isStrategic q
                   then update_section k (\<lambda>s. s\<lparr>strategicCount := strategicCount s + 1\<rparr>) secs
                   else update_section k (\<lambda>s. s\<lparr>requirementCount := requirementCount s + 1\<rparr>) secs)
      in update_section k (\<lambda>s. s\<lparr>questions := questions s @ [q]\<rparr>) secs2)"

definition add_question :: "question \<Rightarrow> sections \<Rightarrow> js_error + sections" where
  "add_question q secs =
     (if str_truthy (response_section q) then
        (let k = str_val (response_section q) in
         case sections_get secs k of
           Missing \<Rightarrow>
             Inr (count_question q k
                    (secs @ [(k, \<lparr>title = JStr k, questions = [], requirementCount = 0,
                                  strategicCount = 0, isEmpty = False\<rparr>)]))
         | Own s \<Rightarrow> Inr (count_question q k secs)
         | Inherited \<Rightarrow> Inl TypeError)
      else Inr secs)"

text \<open>\<^verbatim>\<open>state.questions.forEach\<close>, from the empty object; a throw ends the loop.\<close>

fun collect_from :: "question list \<Rightarrow> sections \<Rightarrow> js_error + sections" where
  "collect_from [] secs = Inr secs"
| "collect_from (q # qs) secs =
     (case add_question q secs of Inl e \<Rightarrow> Inl e | Inr secs' \<Rightarrow> collect_from qs secs')"

definition collect_sections :: "question list \<Rightarrow> js_error + sections" where
  "collect_sections qs = collect_from qs []"

text \<open>
  The \<^verbatim>\<open>map\<close> over \<^verbatim>\<open>submission_structure\<close>: the section name of an item, null
  for an item of another kind. \<^verbatim>\<open>typeof null\<close> is \<^verbatim>\<open>'object'\<close>, and reading
  \<^verbatim>\<open>section\<close> of null throws.
\<close>

fun guide_item :: "jsval \<Rightarrow> js_error + jsval" where
  "guide_item JNull = Inl TypeError"
| "guide_item (JObj kvs) =
     (if truthy (get_prop (JObj kvs) ''section'') then Inr (get_prop (JObj kvs) ''section'')
      else Inr JNull)"
| "guide_item (JArr xs) = Inr JNull"
| "guide_item (JStr s) = Inr (JStr s)"
| "guide_item v = Inr JNull"

fun map_items :: "jsval list \<Rightarrow> js_error + jsval list" where
  "map_items [] = Inr []"
| "map_items (x # xs) =
     (case guide_item x of
        Inl e \<Rightarrow> Inl e
      | Inr v \<Rightarrow> (case map_items xs of Inl e \<Rightarrow> Inl e | Inr vs \<Rightarrow> Inr (v # vs)))"

definition empty_section :: "jsval \<Rightarrow> section_rec" where
  "empty_section t =
     \<lparr>title = t, questions = [], requirementCount = 0, strategicCount = 0, isEmpty = True\<rparr>"

text \<open>
  An element of \<^verbatim>\<open>orderedSections\<close>: a section object, or the member of
  \<^verbatim>\<open>Object.prototype\<close> that \<^verbatim>\<open>sections[sectionName]\<close> found under the name.
\<close>

datatype ordered_entry = Section section_rec | Member string

text \<open>
  The body of \<^verbatim>\<open>guideStructure.forEach\<close>, on the pair of \<^verbatim>\<open>orderedSections\<close> and
  \<^verbatim>\<open>sections\<close>. The section name is a property key: its string. An inherited
  member is truthy: it is pushed, and the \<^verbatim>\<open>delete\<close> removes nothing.
\<close>

definition place_section ::
  "jsval \<Rightarrow> ordered_entry list \<times> sections \<Rightarrow> ordered_entry list \<times> sections" where
  "place_section sectionName st =
     (case st of (ordered, secs) \<Rightarrow>
        (case sections_get secs (js_to_string sectionName) of
           Own s \<Rightarrow> (ordered @ [Section s], delete_section (js_to_string sectionName) secs)
         | Inherited \<Rightarrow> (ordered @ [Member (js_to_string sectionName)], secs)
         | Missing \<Rightarrow> (ordered @ [Section (empty_section sectionName)], secs)))"

text \<open>
  \<^verbatim>\<open>Object.values(sections)\<close>: the own properties, those whose key is an array index
  (a canonical numeral below \<open>2^32 - 1\<close>) first, in ascending order, then the others in
  the order they were added.
\<close>

definition is_digit :: "char \<Rightarrow> bool" where
  "is_digit c = (48 \<le> (of_char c :: nat) \<and> (of_char c :: nat) \<le> 57)"

definition digits_value :: "string \<Rightarrow> nat" where
  "digits_value k = foldl (\<lambda>a c. 10 * a + (of_char c - 48)) 0 k"

definition array_index :: "string \<Rightarrow> nat option" where
  "array_index k =
     (if k \<noteq> [] \<and> list_all is_digit k \<and> (k = ''0'' \<or> hd k \<noteq> CHR ''0'')
         \<and> digits_value k < 4294967295
      then Some (digits_value k) else None)"

definition index_key :: "string \<times> section_rec \<Rightarrow> nat" where
  "index_key kv = (case array_index (fst kv) of Some n \<Rightarrow> n | None \<Rightarrow> 0)"

definition section_values :: "sections \<Rightarrow> section_rec list" where
  "section_values secs =
     map snd (sort_key index_key (filter (\<lambda>kv. array_index (fst kv) \<noteq> None) secs)
              @ filter (\<lambda>kv. array_index (fst kv) = None) secs)"

text \<open>\<^verbatim>\<open>s.title === 'Executive Summary'\<close>; an inherited member has no title.\<close>

fun is_executive_summary :: "ordered_entry \<Rightarrow> bool" where
  "is_executive_summary (Section s) = (title s = JStr ''Executive Summary'')"
| "is_executive_summary (Member m) = False"

text \<open>\<^verbatim>\<open>orderedSections\<close>, as the rendering loop receives it.\<close>

definition orderedSections :: "jsval \<Rightarrow> question list \<Rightarrow> js_error + ordered_entry list" where
  "orderedSections responseGuide qs =
     (case collect_sections qs of
        Inl e \<Rightarrow> Inl e
      | Inr secs \<Rightarrow>
          (let guide =
                 (case get_prop responseGuide ''submission_structure'' of
                    JArr items \<Rightarrow>
                      (case map_items items of
                         Inl e \<Rightarrow> Inl e
                       | Inr names \<Rightarrow>
                           Inr (foldl (\<lambda>st n. place_section n st) ([], secs)
                                  (filter (\<lambda>item. item \<noteq> JNull) names)))
                  | _ \<Rightarrow> Inr ([], secs))
           in case guide of
                Inl e \<Rightarrow> Inl e
              | Inr (ordered, rest) \<Rightarrow>
                  (let ordered1 = ordered @ map Section (section_values rest) in
                   if list_ex is_executive_summary ordered1
                   then Inr ordered1
                   else Inr (Section (empty_section (JStr ''Executive Summary'')) # ordered1))))"

text \<open>
  A JavaScript number, as far as the strength computation needs it: an integer or NaN.
  Addition and multiplication with NaN give NaN, every comparison with NaN is false,
  and \<^verbatim>\<open>Math.min\<close> of NaN is NaN.
\<close>

datatype js_number = Num int | NaN

fun js_add :: "js_number \<Rightarrow> js_number \<Rightarrow> js_number" where
  "js_add (Num a) (Num b) = Num (a + b)"
| "js_add a b = NaN"

fun js_mul :: "js_number \<Rightarrow> js_number \<Rightarrow> js_number" where
  "js_mul (Num a) (Num b) = Num (a * b)"
| "js_mul a b = NaN"

fun js_min :: "js_number \<Rightarrow> js_number \<Rightarrow> js_number" where
  "js_min (Num a) (Num b) = Num (min a b)"
| "js_min a b = NaN"

fun js_gt :: "js_number \<Rightarrow> js_number \<Rightarrow> bool" where
  "js_gt (Num a) (Num b) = (a > b)"
| "js_gt a b = False"

fun js_eq :: "js_number \<Rightarrow> js_number \<Rightarrow> bool" where
  "js_eq (Num a) (Num b) = (a = b)"
| "js_eq a b = False"

fun number_str :: "js_number \<Rightarrow> string" where
  "number_str (Num n) = int_str n"
| "number_str NaN = ''NaN''"

text \<open>
  The counts read from an element of \<^verbatim>\<open>orderedSections\<close>, as numbers. An inherited
  member has no counts (undefined, which is NaN as a number), or NaN where an earlier
  \<^verbatim>\<open>++\<close> landed on it.
\<close>

fun requirementCount_of :: "ordered_entry \<Rightarrow> js_number" where
  "requirementCount_of (Section s) = Num (requirementCount s)"
| "requirementCount_of (Member m) = NaN"

fun strategicCount_of :: "ordered_entry \<Rightarrow> js_number" where
  "strategicCount_of (Section s) = Num (strategicCount s)"
| "strategicCount_of (Member m) = NaN"

text \<open>The strength percentage computed for a section header.\<close>

definition totalQuestions :: "ordered_entry \<Rightarrow> js_number" where
  "totalQuestions e = js_add (requirementCount_of e) (strategicCount_of e)"

definition hasStrategic :: "ordered_entry \<Rightarrow> bool" where
  "hasStrategic e = js_gt (strategicCount_of e) (Num 0)"

definition strengthPercent :: "ordered_entry \<Rightarrow> js_number" where
  "strengthPercent e =
     (if js_eq (totalQuestions e) (Num 0) then Num 0
      else js_min (Num 100)
             (js_add (js_mul (totalQuestions e) (Num 10))
                     (if hasStrategic e then Num 30 else Num 0)))"

text \<open>
  A section header appended to the page: the section it was built from, the strength
  percentage computed for it, the width set on the fill of the strength indicator,
  and whether it got the button to create a question.
\<close>

record section_header =
  header_section :: section_rec
  header_strength :: js_number
  fill_width :: string
  create_button :: bool

definition make_header :: "section_rec \<Rightarrow> section_header" where
  "make_header s =
     \<lparr>header_section = s,
      header_strength = strengthPercent (Section s),
      fill_width = number_str (strengthPercent (Section s)) @ ''%'',
      create_button = (length (questions s) = 0)\<rparr>"

text \<open>
  \<^verbatim>\<open>orderedSections.forEach\<close>: the headers appended to the page, and the error that
  ended the loop, if any. The header of a section is appended after its strength was
  computed and \<^verbatim>\<open>section.questions.length\<close> was read. On an inherited member the
  strength is computed (it is NaN), \<^verbatim>\<open>questions\<close> is undefined, reading its length
  throws, and neither this header nor a later one is appended. Rendering the
  questions of a section comes after its header is appended and is left out; were it
  to throw, the headers appended would be a prefix of the list given here.
\<close>

fun render_sections :: "ordered_entry list \<Rightarrow> section_header list \<times> js_error option" where
  "render_sections [] = ([], None)"
| "render_sections (Section s # es) =
     (case render_sections es of (hs, err) \<Rightarrow> (make_header s # hs, err))"
| "render_sections (Member m # es) = ([], Some TypeError)"

text \<open>
  \<^verbatim>\<open>renderResponseStructure\<close>: nothing but a placeholder without a response guide or
  without questions; otherwise the headers appended before the function returned or
  threw.
\<close>

definition renderResponseStructure ::
  "jsval \<Rightarrow> question list \<Rightarrow> section_header list \<times> js_error option" where
  "renderResponseStructure responseGuide qs =
     (if \<not> truthy responseGuide \<or> length qs = 0 then ([], None)
      else case orderedSections responseGuide qs of
             Inl e \<Rightarrow> ([], Some e)
           | Inr es \<Rightarrow> render_sections es)"

section \<open>Responses view (\<^verbatim>\<open>renderResponses\<close> in \<^verbatim>\<open>static/main.js\<close>)\<close>

record 'd response =
  question_id :: "string option"
  question_text :: "string option"
  r_response_text :: "string option"
  r_sources :: "'d source_entry list option"

text \<open>The line break and the indentation inside the template literal of a row.\<close>

definition nl :: string where
  "nl = [CHR 0x0A]"

definition indent :: "nat \<Rightarrow> string" where
  "indent n = replicate n (CHR '' '')"

text \<open>
  \<^verbatim>\<open>(source.score * 100).toFixed(1)\<close>. The product and the formatting are the
  operations of the doubles, \<open>mul\<close> (a double times an integer constant) and
  \<open>toFixed\<close> (a double to the given number of decimals). A missing score is NaN, its
  product is NaN, and \<^verbatim>\<open>toFixed\<close> of NaN is the string \<^verbatim>\<open>NaN\<close>.
\<close>

definition score_percent ::
  "('d \<Rightarrow> int \<Rightarrow> 'd) \<Rightarrow> (nat \<Rightarrow> 'd \<Rightarrow> string) \<Rightarrow> 'd option \<Rightarrow> string" where
  "score_percent mul toFixed score =
     (case score of None \<Rightarrow> ''NaN'' | Some x \<Rightarrow> toFixed 1 (mul x 100))"

text \<open>
  The markup assigned to \<^verbatim>\<open>row.innerHTML\<close> for one source: the template literal
  with the label, the percentage and the text preview interpolated unescaped.
\<close>

definition source_row ::
  "('d \<Rightarrow> int \<Rightarrow> 'd) \<Rightarrow> (nat \<Rightarrow> 'd \<Rightarrow> string) \<Rightarrow> 'd source_entry \<Rightarrow> html" where
  "source_row mul toFixed s =
     InnerHTML
       (nl @ indent 20 @ ''<td>'' @ str_or (src_source s) ''Unknown'' @ ''</td>'' @
        nl @ indent 20 @ ''<td>'' @ score_percent mul toFixed (src_score s) @ ''%</td>'' @
        nl @ indent 20 @ ''<td>'' @
          (if str_truthy (src_text s) then substring0 100 (str_val (src_text s)) @ ''...''
           else ''No text'') @ ''</td>'' @
        nl @ indent 16)"

text \<open>
  A response item: its \<^verbatim>\<open>data-question-id\<close>, the header text, the section badge,
  the response HTML and the rows of the sources table, when there is one.
\<close>

record response_item =
  item_question_id :: "string option"
  item_header :: string
  item_badge :: "string option"
  item_content :: html
  item_sources :: "html list option"

text \<open>\<^verbatim>\<open>state.questions.find(q => q.id === questionId)\<close>\<close>

definition find_question :: "question list \<Rightarrow> string option \<Rightarrow> question option" where
  "find_question qs questionId = find (\<lambda>q. q_id q = questionId) qs"

text \<open>One iteration of \<^verbatim>\<open>state.responses.forEach\<close>; \<open>formatMarkdown\<close> is the function
  of that name.\<close>

definition render_response ::
  "(string \<Rightarrow> string) \<Rightarrow> ('d \<Rightarrow> int \<Rightarrow> 'd) \<Rightarrow> (nat \<Rightarrow> 'd \<Rightarrow> string) \<Rightarrow> question list
   \<Rightarrow> 'd response \<Rightarrow> response_item" where
  "render_response formatMarkdown mul toFixed qs r =
     (let question = find_question qs (question_id r);
          questionText =
            (case question of
               Some q \<Rightarrow>
                 (if str_truthy (q_text q) then str_val (q_text q)
                  else if str_truthy (original_text q) then str_val (original_text q)
                  else str_or (search_query q) ''Unknown Question'')
             | None \<Rightarrow> str_or (question_text r) ''No question text'')
      in \<lparr>item_question_id = question_id r,
          item_header = questionText,
          item_badge =
            (case question of
               Some q \<Rightarrow> if str_truthy (q_section q) then q_section q else None
             | None \<Rightarrow> None),
          item_content =
            InnerHTML (formatMarkdown (str_or (r_response_text r) ''No response available'')),
          item_sources =
            (case r_sources r of
               Some ss \<Rightarrow> if length ss > 0 then Some (map (source_row mul toFixed) ss) else None
             | None \<Rightarrow> None)\<rparr>)"

datatype responses_view = Placeholder string | Items "response_item list"

definition renderResponses ::
  "(string \<Rightarrow> string) \<Rightarrow> ('d \<Rightarrow> int \<Rightarrow> 'd) \<Rightarrow> (nat \<Rightarrow> 'd \<Rightarrow> string) \<Rightarrow> question list
   \<Rightarrow> 'd response list \<Rightarrow> responses_view" where
  "renderResponses formatMarkdown mul toFixed qs rs =
     (if length rs = 0 then Placeholder ''<p>No responses generated yet.</p>''
      else Items (map (render_response formatMarkdown mul toFixed qs) rs))"

section \<open>Metadata display (\<^verbatim>\<open>getDisplayValue\<close> in \<^verbatim>\<open>static/main.js\<close>)\<close>

text \<open>
  The callback of \<^verbatim>\<open>value.map\<close>: an object (or array) inside the array gives its
  \<^verbatim>\<open>name\<close>, \<^verbatim>\<open>title\<close> or \<^verbatim>\<open>id\<close>, whatever value that is, or else its values
  joined; any other item gives \<^verbatim>\<open>String(item)\<close>.
\<close>

definition readable_item :: "jsval \<Rightarrow> jsval" where
  "readable_item item =
     (let n = js_or (js_or (get_prop item ''name'') (get_prop item ''title'')) (get_prop item ''id'')
      in if truthy n then n else JStr (js_join '', '' (object_values item)))"

fun array_item :: "jsval \<Rightarrow> jsval" where
  "array_item (JObj kvs) = readable_item (JObj kvs)"
| "array_item (JArr xs) = readable_item (JArr xs)"
| "array_item item = JStr (js_to_string item)"

text \<open>\<^verbatim>\<open>displayStr += `, ${v}`\<close>: string concatenation, whatever \<^verbatim>\<open>displayStr\<close> is.\<close>

definition append_part :: "jsval \<Rightarrow> jsval \<Rightarrow> jsval" where
  "append_part displayStr v = JStr (js_to_string displayStr @ '', '' @ js_to_string v)"

text \<open>The branch for an object that is not an array.\<close>

definition display_object :: "jsval \<Rightarrow> jsval" where
  "display_object v =
     (if truthy (get_prop v ''name'') then
        (let d0 = get_prop v ''name'';
             d1 = (if truthy (get_prop v ''role'') then append_part d0 (get_prop v ''role'') else d0);
             d2 = (if truthy (get_prop v ''email'') then append_part d1 (get_prop v ''email'') else d1)
         in d2)
      else if truthy (get_prop v ''contact'') \<or> truthy (get_prop v ''email'')
              \<or> truthy (get_prop v ''phone'') then
        JStr (js_join '', ''
               (filter truthy [get_prop v ''contact'', get_prop v ''email'', get_prop v ''phone'']))
      else
        (let entries = object_entries v in
         if length entries \<le> 3
         then JStr (join '', '' (map (\<lambda>(k, x). k @ '': '' @ js_to_string x) entries))
         else JStr (js_join '', '' (object_values v))))"

text \<open>The value \<^verbatim>\<open>getDisplayValue\<close> returns; it need not be a string.\<close>

fun getDisplayValue :: "jsval \<Rightarrow> jsval" where
  "getDisplayValue JNull = JStr []"
| "getDisplayValue JUndefined = JStr []"
| "getDisplayValue (JStr s) = JStr s"
| "getDisplayValue (JArr xs) = JStr (js_join '', '' (map array_item xs))"
| "getDisplayValue (JObj kvs) = display_object (JObj kvs)"
| "getDisplayValue v = JStr (js_to_string v)"

text \<open>What the page shows: the callers put the result into a template literal.\<close>

definition display_text :: "jsval \<Rightarrow> string" where
  "display_text v = js_to_string (getDisplayValue v)"

section \<open>Embedder invocation scripts\<close>

text \<open>
  A script runs with positional arguments and an environment, and executes commands.
  An assignment in the script overrides the variable of the environment; an unset
  variable expands to the empty string.
\<close>

type_synonym shell_env = "(string \<times> string) list"

datatype command = Exec "string list" | Echo string

definition assign :: "string \<Rightarrow> string \<Rightarrow> shell_env \<Rightarrow> shell_env" where
  "assign x v env = (x, v) # env"

definition expand :: "shell_env \<Rightarrow> string \<Rightarrow> string" where
  "expand env x = (case map_of env x of None \<Rightarrow> [] | Some v \<Rightarrow> v)"

definition pip_install :: command where
  "pip_install =
     Exec [''pip'', ''install'', ''-q'', ''langchain'', ''langchain-community'',
           ''langchain-openai'', ''faiss-cpu'', ''pypdf'', ''docx2txt'', ''unstructured'',
           ''tiktoken'']"

definition deployment_root :: string where
  "deployment_root =
     ''/Users/u1112870/Library/CloudStorage/OneDrive-IQVIA/Ananth/Personal/Arokia_sir''"

text \<open>\<^verbatim>\<open>services/embed_knowledge.sh\<close>\<close>

definition services_embed_knowledge_sh :: "string list \<Rightarrow> shell_env \<Rightarrow> command list" where
  "services_embed_knowledge_sh args env =
     (let env1 = assign ''SOURCE_DIR'' (deployment_root @ ''/Responses'') env;
          env2 = assign ''OUTPUT_DIR'' (deployment_root @ ''/rfp-data'') env1
      in [Exec [''mkdir'', ''-p'', expand env2 ''OUTPUT_DIR''],
          Echo ''Checking required packages...'',
          pip_install,
          Echo ''Starting knowledge base embedding process...'',
          Echo (''Source directory: '' @ expand env2 ''SOURCE_DIR''),
          Echo (''Output directory: '' @ expand env2 ''OUTPUT_DIR''),
          Exec [''python'', deployment_root @ ''/rfp-assistant/utils/knowledge_embedder.py'',
                expand env2 ''SOURCE_DIR'', expand env2 ''OUTPUT_DIR''],
          Echo ''Embedding process complete!'',
          Echo ''Knowledge base is now ready for use with the RFP Assistant.''])"

text \<open>\<^verbatim>\<open>embed_knowledge.sh\<close>\<close>

definition embed_knowledge_sh :: "string list \<Rightarrow> shell_env \<Rightarrow> command list" where
  "embed_knowledge_sh args env =
     (let env1 = assign ''SOURCE_DIR'' ''../Responses'' env;
          env2 = assign ''OUTPUT_DIR'' ''../rfp-data'' env1
      in [Exec [''mkdir'', ''-p'', expand env2 ''OUTPUT_DIR''],
          Echo ''Checking required packages...'',
          pip_install,
          Echo ''Starting knowledge base embedding process...'',
          Echo (''Source directory: '' @ expand env2 ''SOURCE_DIR''),
          Echo (''Output directory: '' @ expand env2 ''OUTPUT_DIR''),
          Exec [''python'', ''./utils/knowledge_embedder.py'',
                expand env2 ''SOURCE_DIR'', expand env2 ''OUTPUT_DIR''],
          Echo ''Embedding process complete!'',
          Echo ''Knowledge base is now ready for use with the RFP Assistant.''])"

text \<open>
  \<^verbatim>\<open>embed_knowledge.bat\<close>. \<^verbatim>\<open>set X="v"\<close> keeps the quotes in the value; the embedder
  receives the argument without them. \<^verbatim>\<open>mkdir\<close> is given the literal word
  \<^verbatim>\<open>OUTPUT_DIR\<close>.
\<close>

definition embed_knowledge_bat :: "string list \<Rightarrow> shell_env \<Rightarrow> command list" where
  "embed_knowledge_bat args env =
     (let env1 = assign ''SOURCE_DIR'' ''../Responses'' env;
          env2 = assign ''OUTPUT_DIR'' ''../rfp-data'' env1
      in [Exec [''mkdir'', ''-p'', ''OUTPUT_DIR''],
          Echo ''Checking required packages...'',
          pip_install,
          Exec [''python'', ''../rfp-assistant/utils/knowledge_embedder.py'',
                expand env2 ''SOURCE_DIR'', expand env2 ''OUTPUT_DIR''],
          Echo ''Embedding process complete!'',
          Echo ''Knowledge base is now ready for use with the RFP Assistant.''])"

text \<open>The source and output directories the embedder is started with.\<close>

fun embedder_dirs :: "command list \<Rightarrow> (string \<times> string) list" where
  "embedder_dirs [] = []"
| "embedder_dirs (Exec [py, script, src, out] # cs) =
     (if py = ''python'' then (src, out) # embedder_dirs cs else embedder_dirs cs)"
| "embedder_dirs (c # cs) = embedder_dirs cs"

text \<open>
  A run takes its directories from the invocation when each directory given to the
  embedder is one of the arguments or the value of an environment variable.
\<close>

definition externally_supplied :: "string list \<Rightarrow> shell_env \<Rightarrow> command list \<Rightarrow> bool" where
  "externally_supplied args env cs =
     list_all (\<lambda>(src, out). src \<in> set (args @ map snd env) \<and> out \<in> set (args @ map snd env))
       (embedder_dirs cs)"

section \<open>Retriever search\<close>

text \<open>
  Modelled from the spec: \<^verbatim>\<open>services/knowledge.py\<close>, which holds the retriever's
  \<^verbatim>\<open>search\<close>, is missing. The model follows section 4.2 of the specification
  (validation, then the strategies in order, each fallback after a failure of the
  previous one) and the order of the three library searches the repository's
  documentation gives: \<^verbatim>\<open>similarity_search_with_score\<close>,
  \<^verbatim>\<open>similarity_search_with_relevance_scores\<close>, \<^verbatim>\<open>similarity_search\<close>. A search of the
  library that raises is \<open>None\<close>. Resolving the hits against the document store and
  ordering them come after the part modelled here.
\<close>

datatype failure = InputValidation | NotInitialized | AllStrategiesFailed

datatype strategy = Primary | RelevanceNormalized | BareTopK

datatype io_event = EmbedQuery string | IndexSearch strategy

record 'c library =
  similarity_search_with_score :: "string \<Rightarrow> nat \<Rightarrow> ('c \<times> int) list option"
  similarity_search_with_relevance_scores :: "string \<Rightarrow> nat \<Rightarrow> ('c \<times> int) list option"
  similarity_search :: "string \<Rightarrow> nat \<Rightarrow> 'c list option"

text \<open>
  Modelled from the spec: the default descending rank-based score of the bare search;
  the hit of rank \<open>i\<close> among \<open>n\<close> gets \<open>n - i\<close>.
\<close>

definition rank_scores :: "'c list \<Rightarrow> ('c \<times> int) list" where
  "rank_scores docs = zip docs (map (\<lambda>i. int (length docs) - int i) [0..<length docs])"

text \<open>Modelled from the spec: the ordered list of strategies, of one signature.\<close>

definition strategies ::
  "'c library \<Rightarrow> (strategy \<times> (string \<Rightarrow> nat \<Rightarrow> ('c \<times> int) list option)) list" where
  "strategies lib =
     [(Primary, similarity_search_with_score lib),
      (RelevanceNormalized, similarity_search_with_relevance_scores lib),
      (BareTopK, \<lambda>q k. map_option rank_scores (similarity_search lib q k))]"

text \<open>
  Modelled from the spec: the strategies tried in sequence; the result and the
  strategies attempted, in order.
\<close>

fun try_strategies ::
  "(strategy \<times> (string \<Rightarrow> nat \<Rightarrow> ('c \<times> int) list option)) list \<Rightarrow> string \<Rightarrow> nat
   \<Rightarrow> (failure + strategy \<times> ('c \<times> int) list) \<times> strategy list" where
  "try_strategies [] q k = (Inl AllStrategiesFailed, [])"
| "try_strategies ((s, f) # rest) q k =
     (case f q k of
        Some hits \<Rightarrow> (Inr (s, hits), [s])
      | None \<Rightarrow> (case try_strategies rest q k of (r, tried) \<Rightarrow> (r, s # tried)))"

text \<open>
  Modelled from the spec: \<^verbatim>\<open>search(queryText, k)\<close> on a retriever that is ready or
  not; the result and the I/O performed, in order.
\<close>

definition search ::
  "'c library \<Rightarrow> bool \<Rightarrow> string \<Rightarrow> int
   \<Rightarrow> (failure + strategy \<times> ('c \<times> int) list) \<times> io_event list" where
  "search lib ready queryText k =
     (if queryText = [] \<or> k \<le> 0 then (Inl InputValidation, [])
      else if \<not> ready then (Inl NotInitialized, [])
      else case try_strategies (strategies lib) queryText (nat k) of
             (r, tried) \<Rightarrow> (r, EmbedQuery queryText # map IndexSearch tried))"

section \<open>Embedder chunking\<close>

text \<open>
  Modelled from the spec: \<^verbatim>\<open>utils/knowledge_embedder.py\<close>, which holds the embedder's
  \<^verbatim>\<open>chunk\<close>, is missing. The model follows section 4.1 of the specification: a chunk
  holds at most \<open>maxChunkSize\<close> characters, and each chunk after the first begins
  \<open>overlapSize\<close> characters before the end of the previous one. The contract
  \<open>overlapSize < maxChunkSize\<close> is what lets the window advance.
\<close>

record chunk_rec =
  parent :: string
  offset :: nat
  ordinal :: nat
  chunk_text :: string

datatype chunk_error = ContractViolated

function chunk_from ::
  "string \<Rightarrow> string \<Rightarrow> nat \<Rightarrow> nat \<Rightarrow> nat \<Rightarrow> nat \<Rightarrow> chunk_error + chunk_rec list" where
  "chunk_from doc documentText maxChunkSize overlapSize pos n =
     (let piece = \<lparr>parent = doc, offset = pos, ordinal = n,
                   chunk_text = take maxChunkSize (drop pos documentText)\<rparr>
      in if length documentText \<le> pos + maxChunkSize then Inr [piece]
         else if maxChunkSize \<le> overlapSize then Inl ContractViolated
         else (case chunk_from doc documentText maxChunkSize overlapSize
                      (pos + maxChunkSize - overlapSize) (Suc n) of
                 Inl e \<Rightarrow> Inl e
               | Inr cs \<Rightarrow> Inr (piece # cs)))"
  by pat_completeness auto
termination
  by (relation "measure (\<lambda>(doc, documentText, maxChunkSize, overlapSize, pos, n).
        length documentText - pos)") auto

declare chunk_from.simps [simp del]

definition chunk :: "string \<Rightarrow> string \<Rightarrow> nat \<Rightarrow> nat \<Rightarrow> chunk_error + chunk_rec list" where
  "chunk doc documentText maxChunkSize overlapSize =
     chunk_from doc documentText maxChunkSize overlapSize 0 0"

section \<open>Invariants\<close>

text \<open>
  The counts of a section agree with its questions: the strategic count is the number
  of its strategic questions, the requirement count the number of the others.
\<close>

definition counts_ok :: "section_rec \<Rightarrow> bool" where
  "counts_ok s =
     (requirementCount s = int (length (filter (\<lambda>q. \<not> isStrategic q) (questions s)))
      \<and> strategicCount s = int (length (filter isStrategic (questions s))))"

text \<open>The sections among the elements of \<^verbatim>\<open>orderedSections\<close> have such counts.\<close>

definition entries_ok :: "ordered_entry list \<Rightarrow> bool" where
  "entries_ok es = (\<forall>s. Section s \<in> set es \<longrightarrow> counts_ok s)"

text \<open>
  The invariant of the chat: at most one call of \<^verbatim>\<open>sendChatMessage\<close> is suspended,
  the loading flag is set exactly while one is, and the chat shows as many loading
  indicators as there are suspended calls.
\<close>

definition chat_inv :: "'d page \<Rightarrow> bool" where
  "chat_inv p =
     (length (inflight p) \<le> 1
      \<and> (loading (chat p) \<longleftrightarrow> inflight p \<noteq> [])
      \<and> loading_nodes (chatMessages p) = length (inflight p))"

section \<open>Auxiliary notions and concrete inputs\<close>

text \<open>A \<^verbatim>\<open>fetch\<close> that fails the request: a network error or a status that is not OK.\<close>

definition failed_fetch :: "fetch_outcome \<Rightarrow> bool" where
  "failed_fetch out = (case out of Rejected e \<Rightarrow> True | Response ok status \<Rightarrow> \<not> ok)"

text \<open>A page whose input holds only blanks, and a page with one request in flight.\<close>

definition blank_page :: "nat page" where
  "blank_page = step (Edit ''  '') initial_page"

definition busy_page :: "nat page" where
  "busy_page = step Send (step (Edit ''hello'') initial_page)"

text \<open>A response guide with one section, a strategic question in it, and the section
  that results.\<close>

definition guide0 :: jsval where
  "guide0 = JObj [(''submission_structure'', JArr [JStr ''Approach''])]"

definition q0 :: question where
  "q0 = \<lparr>q_id = Some ''q1'', q_text = Some ''How?'', original_text = None, search_query = None,
         q_section = None, response_section = Some ''Approach'', q_type = Some ''Strategic''\<rparr>"

definition s0 :: section_rec where
  "s0 = \<lparr>title = JStr ''Approach'', questions = [q0], requirementCount = 0,
         strategicCount = 1, isEmpty = False\<rparr>"

text \<open>
  A response guide that names a section \<^verbatim>\<open>toString\<close>, and a question whose response
  section is named \<^verbatim>\<open>constructor\<close>.
\<close>

definition guide_toString :: jsval where
  "guide_toString = JObj [(''submission_structure'', JArr [JStr ''toString'', JStr ''Approach''])]"

definition q_constructor :: question where
  "q_constructor = \<lparr>q_id = Some ''q2'', q_text = Some ''Who?'', original_text = None,
         search_query = None, q_section = None, response_section = Some ''constructor'',
         q_type = None\<rparr>"

text \<open>
  A source whose label holds markup characters, with the score \<open>x\<close>, and a response
  citing it.
\<close>

definition src_markup :: "'d \<Rightarrow> 'd source_entry" where
  "src_markup x =
     \<lparr>src_text = Some ''Scope of work'', src_source = Some ''R&D <notes>'', src_score = Some x\<rparr>"

definition resp_markup :: "'d \<Rightarrow> 'd response" where
  "resp_markup x = \<lparr>question_id = Some ''q1'', question_text = None,
                    r_response_text = Some ''Yes.'', r_sources = Some [src_markup x]\<rparr>"

text \<open>A library whose primary search raises, and one where only the bare search works.\<close>

definition failing_primary :: "string library" where
  "failing_primary =
     \<lparr>similarity_search_with_score = (\<lambda>q k. None),
      similarity_search_with_relevance_scores = (\<lambda>q k. Some []),
      similarity_search = (\<lambda>q k. Some [''chunk-1''])\<rparr>"

definition bare_only :: "string library" where
  "bare_only =
     \<lparr>similarity_search_with_score = (\<lambda>q k. None),
      similarity_search_with_relevance_scores = (\<lambda>q k. None),
      similarity_search = (\<lambda>q k. Some [''chunk-1'', ''chunk-2''])\<rparr>"

section \<open>Lemmas\<close>

subsection \<open>Section counts\<close>

lemma counts_ok_empty_section: "counts_ok (empty_section t)"
  by (simp add: counts_ok_def empty_section_def)

lemma counts_ok_count_question:
  assumes "\<forall>s \<in> snd ` set secs. counts_ok s"
  shows "\<forall>s \<in> snd ` set (count_question q k secs). counts_ok s"
  using assms
  by (auto simp: count_question_def update_section_def counts_ok_def Let_def split: if_splits)

lemma counts_ok_add_question:
  assumes "\<forall>s \<in> snd ` set secs. counts_ok s" and "add_question q secs = Inr secs'"
  shows "\<forall>s \<in> snd ` set secs'. counts_ok s"
proof (cases "str_truthy (response_section q)")
  case False
  then show ?thesis using assms by (simp add: add_question_def)
next
  case True
  let ?k = "str_val (response_section q)"
  let ?new = "\<lparr>title = JStr ?k, questions = [], requirementCount = 0,
                 strategicCount = 0, isEmpty = False\<rparr>"
  have new_ok: "\<forall>s \<in> snd ` set (secs @ [(?k, ?new)]). counts_ok s"
    using assms(1) by (auto simp: counts_ok_def)
  show ?thesis
  proof (cases "sections_get secs ?k")
    case (Own s)
    then have "secs' = count_question q ?k secs"
      using assms(2) True by (simp add: add_question_def Let_def)
    then show ?thesis using counts_ok_count_question [OF assms(1)] by simp
  next
    case Inherited
    then show ?thesis using assms(2) True by (simp add: add_question_def Let_def)
  next
    case Missing
    then have "secs' = count_question q ?k (secs @ [(?k, ?new)])"
      using assms(2) True by (simp add: add_question_def Let_def)
    then show ?thesis using counts_ok_count_question [OF new_ok] by simp
  qed
qed

lemma counts_ok_collect_from:
  "\<forall>s \<in> snd ` set secs. counts_ok s \<Longrightarrow> collect_from qs secs = Inr secs' \<Longrightarrow>
   \<forall>s \<in> snd ` set secs'. counts_ok s"
proof (induction qs arbitrary: secs)
  case Nil
  then show ?case by simp
next
  case (Cons q qs)
  from Cons.prems(2) obtain secs1 where a: "add_question q secs = Inr secs1"
    and c: "collect_from qs secs1 = Inr secs'"
    by (cases "add_question q secs") simp_all
  have "\<forall>s \<in> snd ` set secs1. counts_ok s"
    using Cons.prems(1) a by (rule counts_ok_add_question)
  then show ?case using c by (rule Cons.IH)
qed

lemma counts_ok_collect:
  "collect_sections qs = Inr secs \<Longrightarrow> \<forall>s \<in> snd ` set secs. counts_ok s"
  unfolding collect_sections_def
  by (rule counts_ok_collect_from [of "[]"]) simp_all

lemma set_delete_section: "set (delete_section k secs) \<subseteq> set secs"
  by (auto simp: delete_section_def)

lemma sections_get_Own: "sections_get secs k = Own s \<Longrightarrow> (k, s) \<in> set secs"
  by (auto simp: sections_get_def split: option.splits if_splits dest: map_of_SomeD)

lemma counts_ok_place:
  assumes "entries_ok (fst st)" and "\<forall>s \<in> snd ` set (snd st). counts_ok s"
  shows "entries_ok (fst (place_section n st))
       \<and> (\<forall>s \<in> snd ` set (snd (place_section n st)). counts_ok s)"
proof (cases st)
  case (Pair ordered secs)
  have ordered_ok: "entries_ok ordered"
    and secs_ok: "\<forall>s \<in> snd ` set secs. counts_ok s"
    using assms Pair by simp_all
  show ?thesis
  proof (cases "sections_get secs (js_to_string n)")
    case Missing
    then have eq: "place_section n st = (ordered @ [Section (empty_section n)], secs)"
      using Pair by (simp add: place_section_def)
    show ?thesis
      unfolding eq using ordered_ok secs_ok
      by (auto simp: entries_ok_def counts_ok_empty_section)
  next
    case Inherited
    then have eq: "place_section n st = (ordered @ [Member (js_to_string n)], secs)"
      using Pair by (simp add: place_section_def)
    show ?thesis
      unfolding eq using ordered_ok secs_ok by (auto simp: entries_ok_def)
  next
    case (Own s)
    then have eq: "place_section n st
        = (ordered @ [Section s], delete_section (js_to_string n) secs)"
      using Pair by (simp add: place_section_def)
    from Own have "(js_to_string n, s) \<in> set secs" by (rule sections_get_Own)
    then have "s \<in> snd ` set secs" by force
    then have s_ok: "counts_ok s" using secs_ok by blast
    have "snd ` set (delete_section (js_to_string n) secs) \<subseteq> snd ` set secs"
      using set_delete_section by (rule image_mono)
    then have rest_ok: "\<forall>s \<in> snd ` set (delete_section (js_to_string n) secs). counts_ok s"
      using secs_ok by blast
    show ?thesis
      unfolding eq using ordered_ok s_ok rest_ok by (auto simp: entries_ok_def)
  qed
qed

lemma counts_ok_place_all:
  "entries_ok (fst st) \<Longrightarrow> \<forall>s \<in> snd ` set (snd st). counts_ok s \<Longrightarrow>
   entries_ok (fst (foldl (\<lambda>st n. place_section n st) st ns))
   \<and> (\<forall>s \<in> snd ` set (snd (foldl (\<lambda>st n. place_section n st) st ns)). counts_ok s)"
proof (induction ns arbitrary: st)
  case Nil
  then show ?case by simp
next
  case (Cons n ns)
  have "entries_ok (fst (place_section n st))
       \<and> (\<forall>s \<in> snd ` set (snd (place_section n st)). counts_ok s)"
    using Cons.prems by (rule counts_ok_place)
  then have "entries_ok (fst (foldl (\<lambda>st n. place_section n st) (place_section n st) ns))
        \<and> (\<forall>s \<in> snd ` set (snd (foldl (\<lambda>st n. place_section n st) (place_section n st) ns)).
            counts_ok s)"
    by (intro Cons.IH) blast+
  then show ?case by simp
qed

lemma set_section_values: "set (section_values secs) = snd ` set secs"
proof -
  have "set (sort_key index_key (filter (\<lambda>kv. array_index (fst kv) \<noteq> None) secs)
             @ filter (\<lambda>kv. array_index (fst kv) = None) secs) = set secs"
    by auto
  then show ?thesis
    unfolding section_values_def set_map by simp
qed

lemma entries_ok_ordered:
  assumes "orderedSections g qs = Inr es"
  shows "entries_ok es"
proof -
  from assms obtain secs where secs: "collect_sections qs = Inr secs"
    by (cases "collect_sections qs") (simp_all add: orderedSections_def)
  have secs_ok: "\<forall>s \<in> snd ` set secs. counts_ok s"
    using secs by (rule counts_ok_collect)
  define guide where "guide =
            (case get_prop g ''submission_structure'' of
               JArr items \<Rightarrow>
                 (case map_items items of
                    Inl e \<Rightarrow> Inl e
                  | Inr names \<Rightarrow>
                      Inr (foldl (\<lambda>st n. place_section n st) ([], secs)
                             (filter (\<lambda>item. item \<noteq> JNull) names)))
             | _ \<Rightarrow> Inr ([], secs))"
  have base: "entries_ok (fst ([] :: ordered_entry list, secs))"
    "\<forall>s \<in> snd ` set (snd ([] :: ordered_entry list, secs)). counts_ok s"
    using secs_ok by (simp_all add: entries_ok_def)
  note fold_ok = counts_ok_place_all [OF base]
  have guide_ok: "entries_ok ordered \<and> (\<forall>s \<in> snd ` set rest. counts_ok s)"
    if "guide = Inr (ordered, rest)" for ordered rest
  proof (cases "get_prop g ''submission_structure''")
    case (JArr items)
    then have "(case map_items items of
                  Inl e \<Rightarrow> Inl e
                | Inr names \<Rightarrow>
                    Inr (foldl (\<lambda>st n. place_section n st) ([], secs)
                           (filter (\<lambda>item. item \<noteq> JNull) names))) = Inr (ordered, rest)"
      using that by (simp add: guide_def)
    then obtain names where "map_items items = Inr names"
      and "(ordered, rest) = foldl (\<lambda>st n. place_section n st) ([], secs)
                             (filter (\<lambda>item. item \<noteq> JNull) names)"
      by (cases "map_items items") auto
    then show ?thesis
      using fold_ok [of "filter (\<lambda>item. item \<noteq> JNull) names"]
      by (metis fst_conv snd_conv)
  qed (use that base in \<open>simp_all add: guide_def\<close>)
  from assms secs obtain ordered rest where g: "guide = Inr (ordered, rest)"
    and es: "es = ordered @ map Section (section_values rest)
             \<or> es = Section (empty_section (JStr ''Executive Summary''))
                    # ordered @ map Section (section_values rest)"
    unfolding orderedSections_def guide_def Let_def
    by (auto split: sum.splits prod.splits if_splits)
  from guide_ok [OF g] es show ?thesis
    by (auto simp: entries_ok_def set_section_values counts_ok_empty_section)
qed

lemma render_sections_headers:
  "h \<in> set (fst (render_sections es)) \<Longrightarrow> \<exists>s. Section s \<in> set es \<and> h = make_header s"
proof (induction es rule: render_sections.induct)
  case 1
  then show ?case by simp
next
  case (2 s es)
  then show ?case by (cases "render_sections es") auto
next
  case (3 m es)
  then show ?case by simp
qed

lemma rendered_header_section:
  assumes "h \<in> set (fst (renderResponseStructure responseGuide qs))"
  shows "h = make_header (header_section h) \<and> counts_ok (header_section h)"
proof -
  from assms obtain es where es: "orderedSections responseGuide qs = Inr es"
    and h: "h \<in> set (fst (render_sections es))"
    by (cases "orderedSections responseGuide qs")
      (auto simp: renderResponseStructure_def split: if_splits)
  from h obtain s where s: "Section s \<in> set es" and hs: "h = make_header s"
    using render_sections_headers by blast
  have "counts_ok s" using entries_ok_ordered [OF es] s by (simp add: entries_ok_def)
  then show ?thesis using hs by (simp add: make_header_def)
qed

subsection \<open>Chat invariant\<close>

lemma loading_nodes_simps [simp]:
  "loading_nodes [] = 0"
  "loading_nodes (MessageElement ty t d items # ns) = loading_nodes ns"
  "loading_nodes (LoadingElement # ns) = Suc (loading_nodes ns)"
  by (simp_all add: loading_nodes_def)

lemma loading_nodes_append [simp]:
  "loading_nodes (xs @ ys) = loading_nodes xs + loading_nodes ys"
  by (simp add: loading_nodes_def)

lemma loading_nodes_remove [simp]:
  "loading_nodes (remove_first_loading ns) = loading_nodes ns - 1"
  by (induction ns rule: remove_first_loading.induct) simp_all

lemma addChatMessage_fields [simp]:
  "chatInput (addChatMessage t ty ss p) = chatInput p"
  "inflight (addChatMessage t ty ss p) = inflight p"
  "posted (addChatMessage t ty ss p) = posted p"
  "loading (chat (addChatMessage t ty ss p)) = loading (chat p)"
  "isOpen (chat (addChatMessage t ty ss p)) = isOpen (chat p)"
  "loading_nodes (chatMessages (addChatMessage t ty ss p)) = loading_nodes (chatMessages p)"
  "messages (chat (addChatMessage t ty ss p)) =
     messages (chat p) @ [\<lparr>msg_text = t, msg_type = ty, msg_sources = ss\<rparr>]"
  by (simp_all add: addChatMessage_def Let_def)

lemma catch_block_fields [simp]:
  "chatInput (catch_block p) = chatInput p"
  "inflight (catch_block p) = inflight p"
  "posted (catch_block p) = posted p"
  "loading (chat (catch_block p)) = False"
  "isOpen (chat (catch_block p)) = isOpen (chat p)"
  "loading_nodes (chatMessages (catch_block p)) = loading_nodes (chatMessages p) - 1"
  "messages (chat (catch_block p)) =
     messages (chat p) @ [\<lparr>msg_text = error_message, msg_type = System, msg_sources = []\<rparr>]"
  "chatMessages (catch_block p) =
     remove_first_loading (chatMessages p) @ [MessageElement System error_message ''none'' []]"
  by (simp_all add: catch_block_def set_loading_def removeChatLoading_def loading_nodes_remove
      addChatMessage_def)

lemma drop_nth_single: "length xs \<le> 1 \<Longrightarrow> i < length xs \<Longrightarrow> drop_nth i xs = []"
  by (cases xs) (auto simp: drop_nth_def)

lemma chat_inv_initial: "chat_inv initial_page"
  by (simp add: chat_inv_def initial_page_def loading_nodes_def)

lemma chat_inv_send: "chat_inv p \<Longrightarrow> chat_inv (sendChatMessage p)"
  by (auto simp: chat_inv_def sendChatMessage_def Let_def showChatLoading_def set_loading_def
      addChatMessage_def)

lemma chat_inv_after_fetch:
  assumes "chat_inv p" and "i < length (inflight p)"
  shows "chat_inv (after_fetch i out p)"
proof -
  have d: "drop_nth i (inflight p) = []"
    using assms by (simp add: chat_inv_def drop_nth_single)
  show ?thesis
    using assms d
    by (cases out) (auto simp: after_fetch_def chat_inv_def)
qed

lemma chat_inv_after_json:
  assumes "chat_inv p" and "i < length (inflight p)"
  shows "chat_inv (after_json i out p)"
proof -
  have d: "drop_nth i (inflight p) = []"
    using assms by (simp add: chat_inv_def drop_nth_single)
  have n: "loading_nodes (chatMessages p) = 1"
    using assms by (simp add: chat_inv_def)
  show ?thesis
    using assms d n
    by (cases out)
      (auto simp: after_json_def chat_inv_def Let_def set_loading_def removeChatLoading_def
        loading_nodes_remove catch_block_def)
qed

lemma chat_inv_step:
  assumes "chat_inv p" and "enabled e p"
  shows "chat_inv (step e p)"
proof (cases e)
  case (Edit s)
  then show ?thesis using assms by (simp add: chat_inv_def)
next
  case Toggle
  then show ?thesis using assms by (simp add: chat_inv_def toggleChat_def)
next
  case Send
  then show ?thesis using assms by (simp add: chat_inv_send)
next
  case (FetchSettled i out)
  then show ?thesis using assms by (simp add: chat_inv_after_fetch)
next
  case (JsonSettled i out)
  then show ?thesis using assms by (simp add: chat_inv_after_json)
qed

lemma reachable_chat_inv: "reachable p \<Longrightarrow> chat_inv p"
  by (induction rule: reachable.induct) (auto intro: chat_inv_initial chat_inv_step)


subsection \<open>Concrete inputs and scores\<close>

lemma reachable_busy_page: "reachable busy_page"
  unfolding busy_page_def
  by (intro reachable.next_event reachable.init) simp_all

lemma busy_page_loading: "loading (chat busy_page)"
  by (simp add: busy_page_def sendChatMessage_def initial_page_def trim_def is_space_def
      addChatMessage_def showChatLoading_def set_loading_def Let_def)

lemma trim_blank: "trim (chatInput blank_page) = []"
  by (simp add: blank_page_def trim_def is_space_def)

lemma rank_scores_descending: "sorted_wrt (>) (map snd (rank_scores docs))"
proof -
  have "map snd (rank_scores docs) = map (\<lambda>i. int (length docs) - int i) [0..<length docs]"
    by (simp add: rank_scores_def)
  moreover have "sorted_wrt (>) (map (\<lambda>i. int n - int i) [0..<m])" for n m
    by (induction m) (auto simp: sorted_wrt_append)
  ultimately show ?thesis by simp
qed

lemma rank_scores_fst: "map fst (rank_scores docs) = docs"
  by (simp add: rank_scores_def)

text \<open>
  What is rendered for the concrete guides: both sections of the first; for the guide
  that names \<^verbatim>\<open>toString\<close> only the header before the inherited member, whose
  percentage is NaN and whose header is never appended; nothing for the question whose
  response section is \<^verbatim>\<open>constructor\<close>.
\<close>

lemma rendered0:
  "fst (renderResponseStructure guide0 [q0])
     = [make_header (empty_section (JStr ''Executive Summary'')), make_header s0]"
  by (simp add: renderResponseStructure_def orderedSections_def guide0_def q0_def s0_def
      collect_sections_def add_question_def count_question_def update_section_def
      sections_get_def object_prototype_names_def str_truthy_def str_val_def
      isStrategic_def place_section_def delete_section_def empty_section_def Let_def
      section_values_def array_index_def is_digit_def)

lemma inherited_member_not_rendered:
  "renderResponseStructure guide_toString [q0]
     = ([make_header (empty_section (JStr ''Executive Summary''))], Some TypeError)
   \<and> strengthPercent (Member ''toString'') = NaN
   \<and> renderResponseStructure guide0 [q_constructor] = ([], Some TypeError)"
  by (simp add: renderResponseStructure_def orderedSections_def guide_toString_def guide0_def
      q0_def q_constructor_def
      collect_sections_def add_question_def count_question_def update_section_def
      sections_get_def object_prototype_names_def str_truthy_def str_val_def
      isStrategic_def place_section_def delete_section_def empty_section_def Let_def
      section_values_def array_index_def is_digit_def strengthPercent_def totalQuestions_def
      hasStrategic_def)

section \<open>Embedder invocation scripts: theorems\<close>

text \<open>
  C1, as stated, fails: a run of \<^verbatim>\<open>services/embed_knowledge.sh\<close> that is given
  directories as arguments and in the environment starts the embedder with neither.
\<close>

theorem scripts_ignore_invocation:
  "\<not> externally_supplied [''/srv/docs'', ''/srv/index'']
        [(''SOURCE_DIR'', ''/srv/docs''), (''OUTPUT_DIR'', ''/srv/index'')]
        (services_embed_knowledge_sh [''/srv/docs'', ''/srv/index'']
           [(''SOURCE_DIR'', ''/srv/docs''), (''OUTPUT_DIR'', ''/srv/index'')])"
  by (simp add: externally_supplied_def services_embed_knowledge_sh_def assign_def expand_def
      pip_install_def deployment_root_def)

text \<open>
  C1, amended: whatever the arguments and the environment of a run, each script starts
  the embedder with the source and output directories written in its text: the absolute
  deployment paths in \<^verbatim>\<open>services/embed_knowledge.sh\<close>, \<^verbatim>\<open>../Responses\<close> and
  \<^verbatim>\<open>../rfp-data\<close> in \<^verbatim>\<open>embed_knowledge.sh\<close> and \<^verbatim>\<open>embed_knowledge.bat\<close>.
\<close>

theorem scripts_fix_directories:
  "embedder_dirs (services_embed_knowledge_sh args env) =
     [(deployment_root @ ''/Responses'', deployment_root @ ''/rfp-data'')]
   \<and> embedder_dirs (embed_knowledge_sh args env) = [(''../Responses'', ''../rfp-data'')]
   \<and> embedder_dirs (embed_knowledge_bat args env) = [(''../Responses'', ''../rfp-data'')]"
  by (simp add: services_embed_knowledge_sh_def embed_knowledge_sh_def embed_knowledge_bat_def
      assign_def expand_def pip_install_def)

section \<open>Input validation: theorem\<close>

text \<open>
  C2: a search with an empty query, or with \<open>k \<le> 0\<close>, is rejected as an
  input-validation failure with no I/O at all (no embedding, no index access). In the
  chat, \<^verbatim>\<open>sendChatMessage\<close> on an input that trims to the empty string leaves the page as
  it is: no request is posted and no message is added.
\<close>

theorem empty_query_rejected:
  "(queryText = [] \<or> k \<le> 0 \<longrightarrow> search lib ready queryText k = (Inl InputValidation, []))
   \<and> (trim (chatInput p) = [] \<longrightarrow>
        sendChatMessage p = p
        \<and> posted (sendChatMessage p) = posted p
        \<and> inflight (sendChatMessage p) = inflight p
        \<and> messages (chat (sendChatMessage p)) = messages (chat p)
        \<and> chatMessages (sendChatMessage p) = chatMessages p)"
  by (simp add: search_def sendChatMessage_def)

theorem empty_query_rejected_witness:
  "search failing_primary True [] 5 = (Inl InputValidation, [])
   \<and> search failing_primary True ''pricing'' 0 = (Inl InputValidation, [])
   \<and> trim (chatInput blank_page) = []
   \<and> sendChatMessage blank_page = blank_page"
  using empty_query_rejected [of "[]" 5 failing_primary True blank_page]
    empty_query_rejected [of "''pricing''" 0 failing_primary True blank_page] trim_blank
  by simp

section \<open>Search fallback: theorem\<close>

text \<open>
  C3: a valid search on a ready retriever tries the primary strategy first; the
  relevance-normalized strategy is tried exactly when the primary one raised, and the
  bare top-k strategy exactly when both raised. A strategy that returns, whatever it
  returns, ends the search with its hits. The bare strategy's synthesized scores
  descend strictly with the rank.
\<close>

theorem fallback_order:
  assumes "queryText \<noteq> []" and "0 < k" and "ready"
  shows "snd (search lib ready queryText k) =
           EmbedQuery queryText #
           map IndexSearch
             (case similarity_search_with_score lib queryText (nat k) of
                Some hits \<Rightarrow> [Primary]
              | None \<Rightarrow>
                  (case similarity_search_with_relevance_scores lib queryText (nat k) of
                     Some hits \<Rightarrow> [Primary, RelevanceNormalized]
                   | None \<Rightarrow> [Primary, RelevanceNormalized, BareTopK]))
       \<and> fst (search lib ready queryText k) =
           (case similarity_search_with_score lib queryText (nat k) of
              Some hits \<Rightarrow> Inr (Primary, hits)
            | None \<Rightarrow>
                (case similarity_search_with_relevance_scores lib queryText (nat k) of
                   Some hits \<Rightarrow> Inr (RelevanceNormalized, hits)
                 | None \<Rightarrow>
                     (case similarity_search lib queryText (nat k) of
                        Some docs \<Rightarrow> Inr (BareTopK, rank_scores docs)
                      | None \<Rightarrow> Inl AllStrategiesFailed)))
       \<and> (IndexSearch RelevanceNormalized \<in> set (snd (search lib ready queryText k))
            \<longleftrightarrow> similarity_search_with_score lib queryText (nat k) = None)
       \<and> (IndexSearch BareTopK \<in> set (snd (search lib ready queryText k))
            \<longleftrightarrow> similarity_search_with_score lib queryText (nat k) = None
                \<and> similarity_search_with_relevance_scores lib queryText (nat k) = None)
       \<and> (\<forall>docs. similarity_search lib queryText (nat k) = Some docs \<longrightarrow>
              sorted_wrt (>) (map snd (rank_scores docs)) \<and> map fst (rank_scores docs) = docs)"
  using assms
  by (auto simp: search_def strategies_def rank_scores_fst rank_scores_descending
      split: option.splits)

theorem fallback_order_witness:
  "''pricing'' \<noteq> [] \<and> (0::int) < 3
   \<and> snd (search failing_primary True ''pricing'' 3) =
        [EmbedQuery ''pricing'', IndexSearch Primary, IndexSearch RelevanceNormalized]
   \<and> fst (search failing_primary True ''pricing'' 3) = Inr (RelevanceNormalized, [])
   \<and> snd (search bare_only True ''pricing'' 3) =
        [EmbedQuery ''pricing'', IndexSearch Primary, IndexSearch RelevanceNormalized,
         IndexSearch BareTopK]
   \<and> fst (search bare_only True ''pricing'' 3) =
        Inr (BareTopK, rank_scores [''chunk-1'', ''chunk-2''])
   \<and> sorted_wrt (>) (map snd (rank_scores [''chunk-1'', ''chunk-2'']))"
proof -
  have h1: "''pricing'' \<noteq> []" and h2: "(0::int) < 3" and h3: True by simp_all
  have p: "similarity_search_with_score failing_primary ''pricing'' (nat 3) = None"
    and r: "similarity_search_with_relevance_scores failing_primary ''pricing'' (nat 3) = Some []"
    by (simp_all add: failing_primary_def)
  have p': "similarity_search_with_score bare_only ''pricing'' (nat 3) = None"
    and r': "similarity_search_with_relevance_scores bare_only ''pricing'' (nat 3) = None"
    and b': "similarity_search bare_only ''pricing'' (nat 3) = Some [''chunk-1'', ''chunk-2'']"
    by (simp_all add: bare_only_def)
  show ?thesis
    using fallback_order [OF h1 h2 h3, of failing_primary]
      fallback_order [OF h1 h2 h3, of bare_only] h1 h2
    unfolding p r p' r' b' by simp
qed

section \<open>Chat failures: theorem\<close>

text \<open>
  C4: when the request of a reachable page fails (network error or a status that is not
  OK), the transcript gains exactly the fixed failure message, the same for every error
  text and status; the loading indicator is gone, the loading flag is false, input,
  open state and earlier messages are untouched, and the next non-blank message is
  posted.
\<close>

theorem failed_chat_request_recovers:
  assumes "reachable p" and "enabled (FetchSettled i out) p" and "failed_fetch out"
  shows "messages (chat (after_fetch i out p)) =
           messages (chat p) @ [\<lparr>msg_text = error_message, msg_type = System, msg_sources = []\<rparr>]
       \<and> chatMessages (after_fetch i out p) =
           remove_first_loading (chatMessages p) @ [MessageElement System error_message ''none'' []]
       \<and> loading_nodes (chatMessages (after_fetch i out p)) = 0
       \<and> \<not> loading (chat (after_fetch i out p))
       \<and> inflight (after_fetch i out p) = []
       \<and> chatInput (after_fetch i out p) = chatInput p
       \<and> isOpen (chat (after_fetch i out p)) = isOpen (chat p)
       \<and> posted (after_fetch i out p) = posted p
       \<and> (\<forall>s. trim s \<noteq> [] \<longrightarrow>
             posted (sendChatMessage (step (Edit s) (after_fetch i out p))) = posted p @ [trim s]
           \<and> inflight (sendChatMessage (step (Edit s) (after_fetch i out p))) = [AwaitFetch (trim s)])"
proof -
  have inv: "chat_inv p" using assms(1) by (rule reachable_chat_inv)
  have i: "i < length (inflight p)" using assms(2) by simp
  have d: "drop_nth i (inflight p) = []"
    using inv i by (simp add: chat_inv_def drop_nth_single)
  have n: "loading_nodes (chatMessages p) = 1"
    using inv i by (simp add: chat_inv_def)
  have eq: "after_fetch i out p = catch_block (p\<lparr>inflight := []\<rparr>)"
    using assms(3) d by (cases out) (simp_all add: after_fetch_def failed_fetch_def)
  have send: "posted (sendChatMessage (step (Edit s) (catch_block (p\<lparr>inflight := []\<rparr>)))) = posted p @ [trim s]
           \<and> inflight (sendChatMessage (step (Edit s) (catch_block (p\<lparr>inflight := []\<rparr>)))) = [AwaitFetch (trim s)]"
    if "trim s \<noteq> []" for s
    using that
    by (simp add: sendChatMessage_def Let_def showChatLoading_def set_loading_def)
  show ?thesis
    unfolding eq using n send by simp
qed

theorem failed_chat_request_recovers_witness:
  "reachable busy_page \<and> enabled (FetchSettled 0 (Response False 500)) busy_page
   \<and> failed_fetch (Response False 500) \<and> trim ''again'' \<noteq> []
   \<and> \<not> loading (chat (after_fetch 0 (Response False 500) busy_page))
   \<and> loading_nodes (chatMessages (after_fetch 0 (Response False 500) busy_page)) = 0
   \<and> posted (sendChatMessage (step (Edit ''again'') (after_fetch 0 (Response False 500) busy_page)))
       = posted busy_page @ [trim ''again'']"
proof -
  have h1: "reachable busy_page" by (rule reachable_busy_page)
  have h2: "enabled (FetchSettled 0 (Response False 500)) busy_page"
    by (simp add: busy_page_def sendChatMessage_def initial_page_def trim_def is_space_def
        addChatMessage_def showChatLoading_def set_loading_def Let_def)
  have h3: "failed_fetch (Response False 500)" by (simp add: failed_fetch_def)
  have h4: "trim ''again'' \<noteq> []" by (simp add: trim_def is_space_def)
  show ?thesis
    using h1 h2 h3 h4 failed_chat_request_recovers [OF h1 h2 h3] by blast
qed

section \<open>Metadata display: theorem\<close>

text \<open>
  C5 fails on the code: an array holding an object whose only field is itself an
  object is displayed as the default object rendering.
\<close>

theorem nested_object_default_rendering:
  "getDisplayValue (JArr [JObj [(''address'', JObj [(''city'', JStr ''Paris'')])]])
     = JStr ''[object Object]''"
  by (simp add: js_join_def join_item_def readable_item_def js_or_def)

section \<open>Chunking: theorem\<close>

text \<open>
  C6: a document no longer than \<open>maxChunkSize\<close> yields exactly one chunk, and the text
  of that chunk is the document.
\<close>

theorem short_document_one_chunk:
  assumes "length documentText \<le> maxChunkSize"
  shows "\<exists>c. chunk doc documentText maxChunkSize overlapSize = Inr [c]
             \<and> chunk_text c = documentText"
  using assms by (simp add: chunk_def chunk_from.simps [of _ _ _ _ 0 0])

theorem short_document_one_chunk_witness:
  "length ''abc'' \<le> (4::nat)
   \<and> (\<exists>c. chunk ''doc-1'' ''abc'' 4 1 = Inr [c] \<and> chunk_text c = ''abc'')"
proof -
  have h: "length ''abc'' \<le> (4::nat)" by simp
  show ?thesis
    using h short_document_one_chunk [OF h, of "''doc-1''" 1] by blast
qed

section \<open>Source attribution: theorem\<close>

text \<open>
  C7 fails on the code: the label of a source is written unescaped into the markup of
  its table row (responses view) and of its list item (chat view). For the label
  \<^verbatim>\<open>R&D <notes>\<close> the markup holds the tag \<^verbatim>\<open><notes>\<close>, which the browser parses
  as an element, so the row and the item do not show the label.
\<close>

theorem source_label_written_as_markup:
  "source_row mul toFixed (src_markup x) =
     InnerHTML
       (nl @ indent 20 @ ''<td>R&D <notes></td>'' @
        nl @ indent 20 @ ''<td>'' @ toFixed 1 (mul x 100) @ ''%</td>'' @
        nl @ indent 20 @ ''<td>Scope of work...</td>'' @
        nl @ indent 16)
   \<and> item_sources (render_response formatMarkdown mul toFixed qs (resp_markup x))
       = Some [source_row mul toFixed (src_markup x)]
   \<and> source_item (src_markup x) = InnerHTML ''<strong>R&D <notes>:</strong> Scope of work...''
   \<and> last (chatMessages (addChatMessage ''Yes.'' System [src_markup x] p))
       = MessageElement System ''Yes.'' ''block''
           [InnerHTML ''<strong>R&D <notes>:</strong> Scope of work...'']"
proof -
  have row: "source_row mul toFixed (src_markup x) =
     InnerHTML
       (nl @ indent 20 @ ''<td>R&D <notes></td>'' @
        nl @ indent 20 @ ''<td>'' @ toFixed 1 (mul x 100) @ ''%</td>'' @
        nl @ indent 20 @ ''<td>Scope of work...</td>'' @
        nl @ indent 16)"
    by (simp add: source_row_def src_markup_def score_percent_def str_or_def str_truthy_def
        str_val_def substring0_def)
  have rows: "item_sources (render_response formatMarkdown mul toFixed qs (resp_markup x))
       = Some [source_row mul toFixed (src_markup x)]"
    by (simp add: render_response_def resp_markup_def Let_def)
  have item: "source_item (src_markup x) = InnerHTML ''<strong>R&D <notes>:</strong> Scope of work...''"
    by (simp add: source_item_def src_markup_def str_or_def str_truthy_def str_val_def
        substring0_def)
  have msg: "last (chatMessages (addChatMessage ''Yes.'' System [src_markup x] p))
       = MessageElement System ''Yes.'' ''block'' [source_item (src_markup x)]"
    by (simp add: addChatMessage_def)
  from row rows item msg show ?thesis by simp
qed

section \<open>Single request in flight: theorem\<close>

text \<open>
  C8: while the loading flag is set, \<^verbatim>\<open>sendChatMessage\<close> leaves the page as it is; the
  flag is false after every completion (a settled \<^verbatim>\<open>response.json()\<close>, a rejected
  \<^verbatim>\<open>fetch\<close>, a response that is not OK); and no reachable page has two requests in
  flight.
\<close>

theorem single_chat_request_in_flight:
  "(loading (chat p) \<longrightarrow> sendChatMessage p = p)
   \<and> \<not> loading (chat (after_json i jout p))
   \<and> \<not> loading (chat (after_fetch i (Rejected err) p))
   \<and> \<not> loading (chat (after_fetch i (Response False status) p))
   \<and> (reachable p \<longrightarrow> length (inflight p) \<le> 1 \<and> (loading (chat p) \<longleftrightarrow> inflight p \<noteq> []))"
proof -
  have a: "loading (chat p) \<longrightarrow> sendChatMessage p = p"
    by (simp add: sendChatMessage_def)
  have b: "\<not> loading (chat (after_json i jout p))"
    by (cases jout) (simp_all add: after_json_def Let_def set_loading_def)
  have c: "\<not> loading (chat (after_fetch i (Rejected err) p))"
    by (simp add: after_fetch_def)
  have d: "\<not> loading (chat (after_fetch i (Response False status) p))"
    by (simp add: after_fetch_def)
  have e: "reachable p \<longrightarrow> length (inflight p) \<le> 1 \<and> (loading (chat p) \<longleftrightarrow> inflight p \<noteq> [])"
    using reachable_chat_inv [of p] by (simp add: chat_inv_def)
  from a b c d e show ?thesis by blast
qed

theorem single_chat_request_in_flight_witness:
  "loading (chat busy_page) \<and> sendChatMessage busy_page = busy_page
   \<and> reachable busy_page \<and> length (inflight busy_page) \<le> 1"
  using single_chat_request_in_flight [of busy_page] busy_page_loading reachable_busy_page
  by blast

section \<open>Upload handlers: theorem\<close>

text \<open>
  C9: a dropped or selected file whose MIME type is neither \<^verbatim>\<open>application/pdf\<close> nor
  the DOCX type, and the case of no file at all, never reaches \<^verbatim>\<open>uploadFile\<close>: both
  handlers only show the alert.
\<close>

theorem invalid_file_never_uploaded:
  assumes "invalid_selection fs"
  shows "handleDrop fs = [Alert ''Please upload a PDF or DOCX file'']
       \<and> handleFileSelect fs = [Alert ''Please upload a PDF or DOCX file'']
       \<and> \<not> uploads (handleDrop fs) \<and> \<not> uploads (handleFileSelect fs)"
  using assms
  by (auto simp: invalid_selection_def handleDrop_def handleFileSelect_def
      isValidFileType_def uploads_def split: option.splits)

theorem invalid_file_never_uploaded_witness:
  "invalid_selection [\<lparr>name = ''notes.txt'', file_type = ''text/plain''\<rparr>]
   \<and> invalid_selection []
   \<and> handleDrop [\<lparr>name = ''notes.txt'', file_type = ''text/plain''\<rparr>]
       = [Alert ''Please upload a PDF or DOCX file'']
   \<and> \<not> uploads (handleFileSelect [\<lparr>name = ''notes.txt'', file_type = ''text/plain''\<rparr>])
   \<and> handleDrop [] = [Alert ''Please upload a PDF or DOCX file'']
   \<and> \<not> uploads (handleFileSelect [])"
proof -
  have h: "invalid_selection [\<lparr>name = ''notes.txt'', file_type = ''text/plain''\<rparr>]"
    by (simp add: invalid_selection_def first_file_def isValidFileType_def
        pdf_type_def docx_type_def)
  have h': "invalid_selection []"
    by (simp add: invalid_selection_def first_file_def)
  show ?thesis
    using h h' invalid_file_never_uploaded [OF h] invalid_file_never_uploaded [OF h'] by blast
qed

section \<open>Section strength: theorem\<close>

text \<open>
  C10: for every section whose header \<^verbatim>\<open>renderResponseStructure\<close> appends to the
  page, the computed strength percentage is a number between 0 and 100, and the width
  of the fill is that number; the total is the number of the section's questions; the
  percentage is 0 when there are none, and otherwise the minimum of 100 and ten times
  the total plus 30 when the section has a strategic question. (A name that the
  \<^verbatim>\<open>sections\<close> object inherits from \<^verbatim>\<open>Object.prototype\<close> never becomes a rendered
  section: the function throws before the header of such an element is appended.)
\<close>

theorem section_strength_bounds:
  assumes "h \<in> set (fst (renderResponseStructure responseGuide qs))"
  shows "\<exists>n. header_strength h = Num n \<and> 0 \<le> n \<and> n \<le> 100
           \<and> fill_width h = int_str n @ ''%''
           \<and> totalQuestions (Section (header_section h))
               = Num (int (length (questions (header_section h))))
           \<and> (hasStrategic (Section (header_section h))
                \<longleftrightarrow> list_ex isStrategic (questions (header_section h)))
           \<and> (length (questions (header_section h)) = 0 \<longrightarrow> n = 0)
           \<and> (length (questions (header_section h)) \<noteq> 0 \<longrightarrow>
                n = min 100 (10 * int (length (questions (header_section h)))
                             + 30 * (if hasStrategic (Section (header_section h)) then 1 else 0)))"
proof -
  let ?s = "header_section h"
  have hd: "h = make_header ?s" and ok: "counts_ok ?s"
    using rendered_header_section [OF assms] by simp_all
  have total: "totalQuestions (Section ?s) = Num (int (length (questions ?s)))"
    using ok sum_length_filter_compl [of isStrategic "questions ?s"]
    by (simp add: counts_ok_def totalQuestions_def)
  have strat: "hasStrategic (Section ?s) \<longleftrightarrow> list_ex isStrategic (questions ?s)"
    using ok by (auto simp: counts_ok_def hasStrategic_def filter_empty_conv list_ex_iff)
  define n where "n = (if length (questions ?s) = 0 then 0
      else min 100 (10 * int (length (questions ?s))
                    + 30 * (if hasStrategic (Section ?s) then 1 else 0)))"
  have sp: "strengthPercent (Section ?s) = Num n"
    unfolding strengthPercent_def total n_def by (simp add: mult.commute)
  have str: "header_strength h = Num n" and w: "fill_width h = int_str n @ ''%''"
    using hd sp by (metis make_header_def section_header.select_convs(2))
      (metis hd sp make_header_def number_str.simps(1) section_header.select_convs(3))
  have bounds: "0 \<le> n \<and> n \<le> 100" unfolding n_def by simp
  have zero: "length (questions ?s) = 0 \<longrightarrow> n = 0" unfolding n_def by simp
  have pos: "length (questions ?s) \<noteq> 0 \<longrightarrow>
                n = min 100 (10 * int (length (questions ?s))
                             + 30 * (if hasStrategic (Section ?s) then 1 else 0))"
    unfolding n_def by simp
  from str w bounds total strat zero pos show ?thesis by blast
qed

theorem section_strength_bounds_witness:
  "make_header s0 \<in> set (fst (renderResponseStructure guide0 [q0]))
   \<and> make_header (empty_section (JStr ''Executive Summary''))
       \<in> set (fst (renderResponseStructure guide0 [q0]))
   \<and> length (questions (header_section (make_header s0))) \<noteq> 0
   \<and> header_strength (make_header s0) = Num 40
   \<and> fill_width (make_header s0) = ''40%''
   \<and> length (questions (header_section (make_header (empty_section (JStr ''Executive Summary''))))) = 0
   \<and> header_strength (make_header (empty_section (JStr ''Executive Summary''))) = Num 0"
proof -
  let ?e = "make_header (empty_section (JStr ''Executive Summary''))"
  have h: "make_header s0 \<in> set (fst (renderResponseStructure guide0 [q0]))"
    and h': "?e \<in> set (fst (renderResponseStructure guide0 [q0]))"
    by (simp_all add: rendered0)
  have q: "length (questions (header_section (make_header s0))) = 1"
    and q': "length (questions (header_section ?e)) = 0"
    and st: "hasStrategic (Section (header_section (make_header s0)))"
    by (simp_all add: make_header_def s0_def empty_section_def hasStrategic_def)
  from section_strength_bounds [OF h] q st
  have a: "header_strength (make_header s0) = Num 40 \<and> fill_width (make_header s0) = int_str 40 @ ''%''"
    by auto
  have i40: "int_str 40 = ''40''"
    by (simp add: int_str_def nat_str.simps [of 40] nat_str.simps [of 4] digit_def)
  from section_strength_bounds [OF h'] q'
  have b: "header_strength ?e = Num 0" by auto
  show ?thesis using h h' q q' a b i40 by simp
qed

end
